theory Spec2Isabelle
  imports Complex_Main
begin

section \<open>Data model\<close>

text \<open>
  The relational tables of \<^verbatim>\<open>db/schema.ts\<close> are lists of rows, in table order. Identifiers
  (uuid columns) and e-mail addresses are strings, timestamps are natural numbers. Nullable
  text columns are \<open>string option\<close>.
\<close>

record user_row =
  u_id :: string
  u_email :: string
  u_auth0Sub :: string

record pdf_row =
  p_id :: string
  p_ownerId :: string
  p_workId :: string
  p_workTitle :: "string option"
  p_orcidId :: "string option"
  p_researcherName :: "string option"
  p_fileName :: string
  p_originalName :: string
  p_uploadedAt :: nat

record share_request_row =
  sr_id :: string
  sr_pdfId :: string
  sr_fromUserId :: string
  sr_toUserId :: string
  sr_createdAt :: nat

record access_row =
  a_id :: string
  a_pdfId :: string
  a_userId :: string
  a_grantedAt :: nat

record linked_researcher_row =
  l_id :: string
  l_userId :: string
  l_orcidId :: string
  l_researcherName :: "string option"
  l_createdAt :: nat

text \<open>
  The relationship graph is an external service. A tuple is (user, relation, object); the
  TypeScript type of a relation is the union \<^verbatim>\<open>"owner" | "viewer"\<close>.
\<close>

datatype relation = Owner | Viewer

datatype tuple_key = TupleKey (tk_user: string) (tk_relation: relation) (tk_object: string)

text \<open>A thrown JavaScript value: an \<^verbatim>\<open>Error\<close> with its message.\<close>

datatype error = Error string

text \<open>
  What the external authorization service answers is a parameter of the model: for the tuples
  it currently stores, the reply to a check (a rejection, or a response whose \<^verbatim>\<open>allowed\<close>
  field may be missing) and to a write (\<open>None\<close>: accepted, \<open>Some e\<close>: rejected with \<open>e\<close>).
\<close>

record fga_service =
  check_response :: "tuple_key list \<Rightarrow> tuple_key \<Rightarrow> error + bool option"
  write_response :: "tuple_key list \<Rightarrow> tuple_key \<Rightarrow> error option"

text \<open>
  The effects a request handler has on the outside, in the order in which the handler awaits
  them: mutations of the relational store and calls to the relationship graph.
\<close>

datatype effect =
    DbInsertPdf string
  | DbUpdatePdf string
  | DbInsertAccess string string
  | DbInsertLinkedResearcher string string
  | DbDeleteShareRequest string
  | FgaCheck tuple_key
  | FgaWrite tuple_key

datatype log_entry =
    ConsoleLog string
  | ConsoleWarn string
  | ConsoleError string error
  | LogInfo string
  | LogError error string

record world =
  FGA_STORE_ID :: "string option"
  users :: "user_row list"
  uploadedPdfs :: "pdf_row list"
  pdfShareRequests :: "share_request_row list"
  pdfAccess :: "access_row list"
  linkedResearchers :: "linked_researcher_row list"
  disk :: "string list"
  fga_store :: "tuple_key list"
  trace :: "effect list"
  logs :: "log_entry list"

text \<open>\<^verbatim>\<open>if (process.env.FGA_STORE_ID)\<close>: an unset variable and the empty string are falsy.\<close>

definition fga_configured :: "world \<Rightarrow> bool" where
  "fga_configured w = (case FGA_STORE_ID w of None \<Rightarrow> False | Some s \<Rightarrow> s \<noteq> [])"

definition log_add :: "log_entry \<Rightarrow> world \<Rightarrow> world" where
  "log_add e w = w\<lparr>logs := logs w @ [e]\<rparr>"

definition rel_str :: "relation \<Rightarrow> string" where
  "rel_str r = (case r of Owner \<Rightarrow> ''owner'' | Viewer \<Rightarrow> ''viewer'')"

section \<open>The relationship-graph client (lib/fga.ts)\<close>

text \<open>
  \<^verbatim>\<open>fgaClient.check\<close> and \<^verbatim>\<open>fgaClient.write\<close>: the call is recorded in the trace, the
  service's reply is returned (\<open>Inl\<close>: the promise rejects), and an accepted write adds the
  tuple to the store. \<^verbatim>\<open>getFGAClient\<close> only builds the client object from the environment.
\<close>

definition client_check :: "fga_service \<Rightarrow> tuple_key \<Rightarrow> world \<Rightarrow> (error + bool option) \<times> world" where
  "client_check svc t w =
     (check_response svc (fga_store w) t, w\<lparr>trace := trace w @ [FgaCheck t]\<rparr>)"

definition client_write :: "fga_service \<Rightarrow> tuple_key \<Rightarrow> world \<Rightarrow> (error + unit) \<times> world" where
  "client_write svc t w =
     (case write_response svc (fga_store w) t of
        Some e \<Rightarrow> (Inl e, w\<lparr>trace := trace w @ [FgaWrite t]\<rparr>)
      | None \<Rightarrow> (Inr (), w\<lparr>trace := trace w @ [FgaWrite t], fga_store := fga_store w @ [t]\<rparr>))"

text \<open>\<^verbatim>\<open>allowed || false\<close>, where \<^verbatim>\<open>allowed\<close> may be undefined.\<close>

definition or_false :: "bool option \<Rightarrow> bool" where
  "or_false a = (case a of Some b \<Rightarrow> b | None \<Rightarrow> False)"

definition viewer_key :: "string \<Rightarrow> string \<Rightarrow> tuple_key" where
  "viewer_key userEmail docId = TupleKey (''user:'' @ userEmail) Viewer (''doc:'' @ docId)"

definition owner_key :: "string \<Rightarrow> string \<Rightarrow> tuple_key" where
  "owner_key userEmail docId = TupleKey (''user:'' @ userEmail) Owner (''doc:'' @ docId)"

text \<open>
  \<^verbatim>\<open>canUserViewDocument\<close>: the result is \<open>Inl e\<close> when the function throws \<open>e\<close> to its caller
  and \<open>Inr b\<close> when it returns \<open>b\<close>.
\<close>

definition canUserViewDocument ::
  "fga_service \<Rightarrow> string \<Rightarrow> string \<Rightarrow> world \<Rightarrow> (error + bool) \<times> world" where
  "canUserViewDocument svc userEmail documentId w =
     (case client_check svc (viewer_key userEmail documentId) w of
        (Inr allowed, w1) \<Rightarrow> (Inr (or_false allowed), w1)
      | (Inl e, w1) \<Rightarrow> (Inr False, log_add (ConsoleError ''FGA check error:'' e) w1))"

text \<open>\<^verbatim>\<open>grantDocumentAccess\<close>: logs, writes one tuple, and rethrows a failed write.\<close>

definition grantDocumentAccess ::
  "fga_service \<Rightarrow> string \<Rightarrow> string \<Rightarrow> relation \<Rightarrow> world \<Rightarrow> (error + unit) \<times> world" where
  "grantDocumentAccess svc userEmail documentId rel w =
     (let w0 = log_add (ConsoleLog (''[FGA] Granting '' @ rel_str rel @ '' access to doc:'' @
                          documentId @ '' for user:'' @ userEmail)) w
      in case client_write svc (TupleKey (''user:'' @ userEmail) rel (''doc:'' @ documentId)) w0 of
           (Inr u, w1) \<Rightarrow> (Inr u, log_add (ConsoleLog ''[FGA] Successfully granted access:'') w1)
         | (Inl e, w1) \<Rightarrow> (Inl e, log_add (ConsoleError ''[FGA] Failed to grant access:'' e) w1))"

text \<open>
  \<^verbatim>\<open>batchCheckDocumentAccess\<close>. Every check is issued before any is awaited
  (\<^verbatim>\<open>checks.map((check) => fgaClient.check(check))\<close>), so all calls reach the trace;
  \<^verbatim>\<open>Promise.all\<close> rejects as soon as one check rejects (here: with the error of the first
  rejected check in list order) and otherwise yields the responses in the order of the input.
\<close>

fun issue_checks ::
  "fga_service \<Rightarrow> tuple_key list \<Rightarrow> world \<Rightarrow> (error + bool option) list \<times> world" where
  "issue_checks svc [] w = ([], w)"
| "issue_checks svc (t # ts) w =
     (case client_check svc t w of
        (r, w1) \<Rightarrow> (case issue_checks svc ts w1 of (rs, w2) \<Rightarrow> (r # rs, w2)))"

fun promise_all :: "(error + 'a) list \<Rightarrow> error + 'a list" where
  "promise_all [] = Inr []"
| "promise_all (Inl e # rs) = Inl e"
| "promise_all (Inr v # rs) = (case promise_all rs of Inl e \<Rightarrow> Inl e | Inr vs \<Rightarrow> Inr (v # vs))"

text \<open>
  The two \<^verbatim>\<open>forEach\<close> loops that fill the result object \<^verbatim>\<open>results\<close>, a map from
  document identifier to boolean.
\<close>

fun fill_results ::
  "(string \<times> bool option) list \<Rightarrow> (string \<rightharpoonup> bool) \<times> world \<Rightarrow> (string \<rightharpoonup> bool) \<times> world" where
  "fill_results [] (results, w) = (results, w)"
| "fill_results ((docId, allowed) # rest) (results, w) =
     fill_results rest
       (results(docId \<mapsto> or_false allowed),
        log_add (ConsoleLog (''[FGA] doc:'' @ docId @ '' - allowed: '' @
                   (if or_false allowed then ''true'' else ''false''))) w)"

fun fill_false :: "string list \<Rightarrow> (string \<rightharpoonup> bool) \<Rightarrow> (string \<rightharpoonup> bool)" where
  "fill_false [] results = results"
| "fill_false (docId # rest) results = fill_false rest (results(docId \<mapsto> False))"

definition batchCheckDocumentAccess ::
  "fga_service \<Rightarrow> string \<Rightarrow> string list \<Rightarrow> world \<Rightarrow> (error + (string \<rightharpoonup> bool)) \<times> world" where
  "batchCheckDocumentAccess svc userEmail documentIds w =
     (let w0 = log_add (ConsoleLog (''[FGA] Batch checking access for user:'' @ userEmail @
                          '', documents:'')) w;
          checks = map (viewer_key userEmail) documentIds
      in case issue_checks svc checks w0 of
           (replies, w1) \<Rightarrow>
             (case promise_all replies of
                Inr responses \<Rightarrow>
                  (case fill_results (zip documentIds responses) (Map.empty, w1) of
                     (results, w2) \<Rightarrow> (Inr results, w2))
              | Inl e \<Rightarrow>
                  (Inr (fill_false documentIds Map.empty),
                   log_add (ConsoleError ''[FGA] Batch check error:'' e) w1)))"

section \<open>Replies and JavaScript helpers\<close>

record suggestion =
  s_id :: string
  s_workId :: string
  s_workTitle :: "string option"
  s_originalName :: string
  s_orcidId :: "string option"
  s_researcherName :: "string option"
  s_uploadedAt :: nat
  s_isOwner :: bool
  s_relevanceScore :: int

text \<open>The JSON bodies the handlers send, and a reply as status code and body.\<close>

datatype body =
    Message string
  | ErrorMsg string
  | PdfInfo string string string nat
  | NoSuggestions string
  | Suggestions "suggestion list" string nat
  | Success

datatype reply = Reply nat body

text \<open>\<^verbatim>\<open>!s\<close> for an optional string: undefined and the empty string are falsy.\<close>

definition falsy :: "string option \<Rightarrow> bool" where
  "falsy s = (case s of None \<Rightarrow> True | Some v \<Rightarrow> v = [])"

text \<open>\<^verbatim>\<open>a || b\<close> on optional strings.\<close>

definition js_or :: "string option \<Rightarrow> string option \<Rightarrow> string option" where
  "js_or a b = (if falsy a then b else a)"

text \<open>\<^verbatim>\<open>name.split(".").pop()\<close>: the part of the name after its last dot.\<close>

fun split_pop :: "string \<Rightarrow> string \<Rightarrow> string" where
  "split_pop acc [] = acc"
| "split_pop acc (c # cs) = (if c = CHR ''.'' then split_pop [] cs else split_pop (acc @ [c]) cs)"

definition fileExtension :: "string \<Rightarrow> string" where
  "fileExtension filename = (let e = split_pop [] filename in if e = [] then ''pdf'' else e)"



section \<open>Upload and share-accept (routes/pdfs.ts)\<close>

text \<open>
  A request carries, besides its own fields, the values the handler obtains from its
  surroundings while it runs: the random file name, the identifier and time stamp the
  database generates for a new row, and whether the file reaches the disk.
\<close>

record upload_request =
  up_userEmail :: "string option"
  up_workId :: "string option"
  up_workTitle :: "string option"
  up_orcidId :: "string option"
  up_researcherName :: "string option"
  up_file :: "string option"
  up_randomUUID :: string
  up_newId :: string
  up_now :: nat
  up_saved :: bool

text \<open>
  The block guarded by \<^verbatim>\<open>if (process.env.FGA_STORE_ID)\<close> in the upload handler: both
  grants are in one \<^verbatim>\<open>try\<close>, so a failed owner grant skips the viewer grant.
\<close>

definition upload_grant :: "fga_service \<Rightarrow> string \<Rightarrow> string \<Rightarrow> world \<Rightarrow> world" where
  "upload_grant svc userEmail docId w =
     (if fga_configured w then
        (case grantDocumentAccess svc userEmail docId Owner w of
           (Inl e, w1) \<Rightarrow> log_add (LogError e ''Failed to grant FGA access'') w1
         | (Inr _, w1) \<Rightarrow>
             (case grantDocumentAccess svc userEmail docId Viewer w1 of
                (Inl e, w2) \<Rightarrow> log_add (LogError e ''Failed to grant FGA access'') w2
              | (Inr _, w2) \<Rightarrow>
                  log_add (LogInfo (''FGA access granted for document '' @ docId @ '' to '' @
                                    userEmail)) w2))
      else w)"

definition unlink :: "string \<Rightarrow> world \<Rightarrow> world" where
  "unlink name w =
     (if name \<in> set (disk w) then w\<lparr>disk := removeAll name (disk w)\<rparr>
      else log_add (ConsoleWarn ''Failed to delete old file:'') w)"

definition update_pdf :: "upload_request \<Rightarrow> string \<Rightarrow> string \<Rightarrow> pdf_row \<Rightarrow> pdf_row \<Rightarrow> pdf_row" where
  "update_pdf req uniqueFileName filename existing row =
     (if p_id row = p_id existing then
        row\<lparr>p_fileName := uniqueFileName,
            p_originalName := filename,
            p_uploadedAt := up_now req,
            p_workTitle := js_or (up_workTitle req) (p_workTitle existing),
            p_orcidId := js_or (up_orcidId req) (p_orcidId existing),
            p_researcherName := js_or (up_researcherName req) (p_researcherName existing)\<rparr>
      else row)"

definition new_pdf :: "upload_request \<Rightarrow> string \<Rightarrow> string \<Rightarrow> string \<Rightarrow> string \<Rightarrow> pdf_row" where
  "new_pdf req ownerId workId uniqueFileName filename =
     \<lparr>p_id = up_newId req, p_ownerId = ownerId, p_workId = workId,
      p_workTitle = js_or (up_workTitle req) None,
      p_orcidId = js_or (up_orcidId req) None,
      p_researcherName = js_or (up_researcherName req) None,
      p_fileName = uniqueFileName, p_originalName = filename, p_uploadedAt = up_now req\<rparr>"

text \<open>
  \<^verbatim>\<open>POST /api/pdfs/upload\<close>. The outer \<^verbatim>\<open>catch\<close> answers 500; in the model it is reached
  when the file cannot be written, when the update returns no row, and when the generated
  primary key of the new row is already taken.
\<close>

definition upload :: "fga_service \<Rightarrow> upload_request \<Rightarrow> world \<Rightarrow> reply \<times> world" where
  "upload svc req w =
     (if falsy (up_workId req) then (Reply 400 (Message ''Work ID is required''), w)
      else if falsy (up_userEmail req) then (Reply 401 (Message ''Unauthorized''), w)
      else
        let workId = the (up_workId req); userEmail = the (up_userEmail req) in
        case find (\<lambda>u. u_email u = userEmail) (users w) of
          None \<Rightarrow> (Reply 404 (Message ''User not found''), w)
        | Some user \<Rightarrow>
           (case up_file req of
              None \<Rightarrow> (Reply 400 (Message ''No file uploaded''), w)
            | Some filename \<Rightarrow>
               (let existing = find (\<lambda>p. p_ownerId p = u_id user \<and> p_workId p = workId)
                                 (uploadedPdfs w);
                    uniqueFileName = up_randomUUID req @ ''.'' @ fileExtension filename
                in if \<not> up_saved req then
                     (Reply 500 (Message ''Failed to upload PDF''),
                      log_add (LogError (Error ''write failed'') []) w)
                   else
                     let w1 = w\<lparr>disk := disk w @ [uniqueFileName]\<rparr> in
                     case existing of
                       Some ex \<Rightarrow>
                         (let w2 = unlink (p_fileName ex) w1;
                              w3 = w2\<lparr>uploadedPdfs :=
                                         map (update_pdf req uniqueFileName filename ex)
                                           (uploadedPdfs w2),
                                      trace := trace w2 @ [DbUpdatePdf (p_id ex)]\<rparr>
                          in case filter (\<lambda>p. p_id p = p_id ex) (uploadedPdfs w3) of
                               [] \<Rightarrow> (Reply 500 (Message ''Failed to upload PDF''),
                                      log_add (LogError (Error ''TypeError'') []) w3)
                             | updated # _ \<Rightarrow>
                                 (Reply 200 (PdfInfo (p_id updated) (p_workId updated)
                                    (p_originalName updated) (p_uploadedAt updated)), w3))
                     | None \<Rightarrow>
                        (if list_ex (\<lambda>p. p_id p = up_newId req) (uploadedPdfs w1) then
                           (Reply 500 (Message ''Failed to upload PDF''),
                            log_add (LogError (Error ''duplicate key'') []) w1)
                         else
                           let uploaded = new_pdf req (u_id user) workId uniqueFileName filename;
                               w2 = w1\<lparr>uploadedPdfs := uploadedPdfs w1 @ [uploaded],
                                       trace := trace w1 @ [DbInsertPdf (p_id uploaded)]\<rparr>;
                               w3 = upload_grant svc userEmail (p_id uploaded) w2
                           in (Reply 200 (PdfInfo (p_id uploaded) (p_workId uploaded)
                                 (p_originalName uploaded) (p_uploadedAt uploaded)), w3)))))"

record accept_request =
  ac_userEmail :: "string option"
  ac_id :: string
  ac_newAccessId :: string
  ac_newLinkId :: string
  ac_now :: nat

text \<open>The \<^verbatim>\<open>if (process.env.FGA_STORE_ID)\<close> block of the accept handler.\<close>

definition accept_grant :: "fga_service \<Rightarrow> string \<Rightarrow> string \<Rightarrow> world \<Rightarrow> world" where
  "accept_grant svc userEmail pdfId w =
     (if fga_configured w then
        (case grantDocumentAccess svc userEmail pdfId Viewer w of
           (Inl e, w1) \<Rightarrow> log_add (LogError e ''Failed to grant FGA access'') w1
         | (Inr _, w1) \<Rightarrow>
             log_add (LogInfo (''FGA viewer access granted for document '' @ pdfId @ '' to '' @
                               userEmail)) w1)
      else w)"

text \<open>
  The researcher of the shared paper is linked to the accepting user when not yet linked
  (again with \<^verbatim>\<open>onConflictDoNothing\<close>).
\<close>

definition link_researcher :: "accept_request \<Rightarrow> user_row \<Rightarrow> pdf_row \<Rightarrow> world \<Rightarrow> world" where
  "link_researcher req user pdf w =
     (if \<not> falsy (p_orcidId pdf) \<and> \<not> falsy (p_researcherName pdf) then
        (case find (\<lambda>l. l_userId l = u_id user \<and> l_orcidId l = the (p_orcidId pdf))
                (linkedResearchers w) of
           Some _ \<Rightarrow> w
         | None \<Rightarrow>
             (let rows = (if list_ex (\<lambda>l. l_id l = ac_newLinkId req) (linkedResearchers w)
                          then linkedResearchers w
                          else linkedResearchers w @
                            [\<lparr>l_id = ac_newLinkId req, l_userId = u_id user,
                              l_orcidId = the (p_orcidId pdf),
                              l_researcherName = p_researcherName pdf,
                              l_createdAt = ac_now req\<rparr>])
              in w\<lparr>linkedResearchers := rows,
                   trace := trace w @
                     [DbInsertLinkedResearcher (u_id user) (the (p_orcidId pdf))]\<rparr>))
      else w)"

text \<open>
  \<^verbatim>\<open>insert(pdfAccess).values(...).onConflictDoNothing()\<close>: the row is not inserted when
  it conflicts with an existing one, on the unique pair (pdfId, userId) or on the primary key.
\<close>

definition insert_access :: "accept_request \<Rightarrow> string \<Rightarrow> string \<Rightarrow> world \<Rightarrow> world" where
  "insert_access req pdfId userId w =
     (let rows = (if list_ex (\<lambda>a. (a_pdfId a = pdfId \<and> a_userId a = userId) \<or>
                                     a_id a = ac_newAccessId req) (pdfAccess w)
                  then pdfAccess w
                  else pdfAccess w @ [\<lparr>a_id = ac_newAccessId req, a_pdfId = pdfId,
                                       a_userId = userId, a_grantedAt = ac_now req\<rparr>])
      in w\<lparr>pdfAccess := rows, trace := trace w @ [DbInsertAccess pdfId userId]\<rparr>)"

definition delete_share_request :: "string \<Rightarrow> world \<Rightarrow> world" where
  "delete_share_request rid w =
     w\<lparr>pdfShareRequests := filter (\<lambda>r. sr_id r \<noteq> rid) (pdfShareRequests w),
       trace := trace w @ [DbDeleteShareRequest rid]\<rparr>"

text \<open>
  \<^verbatim>\<open>POST /api/pdfs/share-requests/:id/accept\<close>. The share request is read together with
  its document (\<^verbatim>\<open>with: { pdf: true }\<close>); a request whose document is missing makes
  \<^verbatim>\<open>shareRequest.pdf.orcidId\<close> throw, which the outer \<^verbatim>\<open>catch\<close> answers with 500.
\<close>

definition accept :: "fga_service \<Rightarrow> accept_request \<Rightarrow> world \<Rightarrow> reply \<times> world" where
  "accept svc req w =
     (if falsy (ac_userEmail req) then (Reply 401 (Message ''Unauthorized''), w)
      else
        let userEmail = the (ac_userEmail req) in
        case find (\<lambda>u. u_email u = userEmail) (users w) of
          None \<Rightarrow> (Reply 404 (Message ''User not found''), w)
        | Some user \<Rightarrow>
           (case find (\<lambda>r. sr_id r = ac_id req \<and> sr_toUserId r = u_id user)
                   (pdfShareRequests w) of
              None \<Rightarrow> (Reply 404 (Message ''Share request not found''), w)
            | Some shareRequest \<Rightarrow>
               (case find (\<lambda>p. p_id p = sr_pdfId shareRequest) (uploadedPdfs w) of
                  None \<Rightarrow> (Reply 500 (Message ''Failed to accept share request''),
                           log_add (LogError (Error ''TypeError'') []) w)
                | Some pdf \<Rightarrow>
                   (let w1 = link_researcher req user pdf w;
                        w2 = insert_access req (sr_pdfId shareRequest) (u_id user) w1;
                        w3 = accept_grant svc userEmail (sr_pdfId shareRequest) w2;
                        w4 = delete_share_request (ac_id req) w3
                    in (Reply 200 (Message ''Share request accepted''), w4)))))"

section \<open>Suggestions (pdf-suggestions.ts)\<close>















section \<open>Document load for question answering (pdf-rag.ts)\<close>



section \<open>The relational store of a world\<close>

text \<open>The five tables, without the graph, the disk, the trace and the logs.\<close>

definition relational ::
  "world \<Rightarrow> user_row list \<times> pdf_row list \<times> share_request_row list \<times> access_row list \<times>
     linked_researcher_row list" where
  "relational w =
     (users w, uploadedPdfs w, pdfShareRequests w, pdfAccess w, linkedResearchers w)"

section \<open>Example services and worlds\<close>

text \<open>
  A service that answers every check from the tuples it stores and accepts every write, a
  service that rejects every call, and one whose check rejects for a single object.
\<close>

definition ideal_service :: fga_service where
  "ideal_service = \<lparr>check_response = (\<lambda>ts t. Inr (Some (t \<in> set ts))),
                     write_response = (\<lambda>ts t. None)\<rparr>"

definition failing_service :: fga_service where
  "failing_service = \<lparr>check_response = (\<lambda>ts t. Inl (Error ''fga unavailable'')),
                       write_response = (\<lambda>ts t. Some (Error ''fga unavailable''))\<rparr>"

definition flaky_service :: "string \<Rightarrow> fga_service" where
  "flaky_service bad =
     \<lparr>check_response = (\<lambda>ts t. if tk_object t = bad then Inl (Error ''timeout'')
                                else Inr (Some (t \<in> set ts))),
      write_response = (\<lambda>ts t. None)\<rparr>"

definition empty_world :: world where
  "empty_world = \<lparr>FGA_STORE_ID = Some ''01STORE'', users = [], uploadedPdfs = [],
     pdfShareRequests = [], pdfAccess = [], linkedResearchers = [], disk = [],
     fga_store = [], trace = [], logs = []\<rparr>"

definition two_doc_world :: world where
  "two_doc_world =
     empty_world\<lparr>fga_store := [viewer_key ''alice@x.org'' ''D1'', viewer_key ''alice@x.org'' ''D2'']\<rparr>"

text \<open>Two users, three documents of the first, and requests against them.\<close>

definition alice :: user_row where
  "alice = \<lparr>u_id = ''u1'', u_email = ''alice@x.org'', u_auth0Sub = ''auth0|1''\<rparr>"

definition bob :: user_row where
  "bob = \<lparr>u_id = ''u2'', u_email = ''bob@x.org'', u_auth0Sub = ''auth0|2''\<rparr>"

definition paper :: "string \<Rightarrow> string \<Rightarrow> pdf_row" where
  "paper docId workId =
     \<lparr>p_id = docId, p_ownerId = ''u1'', p_workId = workId, p_workTitle = Some ''Graphs'',
      p_orcidId = None, p_researcherName = None, p_fileName = docId @ ''.pdf'',
      p_originalName = ''paper.pdf'', p_uploadedAt = 1\<rparr>"

definition base_world :: world where
  "base_world = empty_world\<lparr>users := [alice, bob]\<rparr>"

text \<open>Alice owns \<open>D1\<close>, \<open>D2\<close> and \<open>D3\<close>; the graph holds her viewer tuples for \<open>D1\<close> and \<open>D3\<close> only.\<close>

definition library_world :: world where
  "library_world =
     base_world\<lparr>uploadedPdfs := [paper ''D1'' ''W1'', paper ''D2'' ''W2'', paper ''D3'' ''W3''],
                disk := [''D1.pdf'', ''D2.pdf'', ''D3.pdf''],
                fga_store := [viewer_key ''alice@x.org'' ''D1'', viewer_key ''alice@x.org'' ''D3'']\<rparr>"

text \<open>Alice has asked to share \<open>D1\<close> with Bob.\<close>

definition share_world :: world where
  "share_world =
     library_world\<lparr>pdfShareRequests :=
       [\<lparr>sr_id = ''R1'', sr_pdfId = ''D1'', sr_fromUserId = ''u1'', sr_toUserId = ''u2'',
         sr_createdAt = 2\<rparr>]\<rparr>"


definition upload_req :: upload_request where
  "upload_req = \<lparr>up_userEmail = Some ''alice@x.org'', up_workId = Some ''W9'',
     up_workTitle = Some ''Trees'', up_orcidId = None, up_researcherName = None,
     up_file = Some ''trees.pdf'', up_randomUUID = ''f9'', up_newId = ''D9'', up_now = 5,
     up_saved = True\<rparr>"

definition reupload_req :: upload_request where
  "reupload_req = upload_req\<lparr>up_workId := Some ''W1''\<rparr>"

definition accept_req :: accept_request where
  "accept_req = \<lparr>ac_userEmail = Some ''bob@x.org'', ac_id = ''R1'', ac_newAccessId = ''A1'',
     ac_newLinkId = ''L1'', ac_now = 6\<rparr>"

text \<open>
  A configured system whose only document was created while the store identifier was unset:
  the graph holds no tuple for it.
\<close>

definition degraded_upgraded_world :: world where
  "degraded_upgraded_world =
     base_world\<lparr>uploadedPdfs := [paper ''D1'' ''W1''], disk := [''D1.pdf'']\<rparr>"





section \<open>Auxiliary facts\<close>

lemma client_check_store [simp]: "fga_store (snd (client_check svc t w)) = fga_store w"
  by (simp add: client_check_def)

lemma client_check_fst [simp]: "fst (client_check svc t w) = check_response svc (fga_store w) t"
  by (simp add: client_check_def)

lemma issue_checks_fst:
  "fst (issue_checks svc ts w) = map (check_response svc (fga_store w)) ts"
proof (induction ts arbitrary: w)
  case Nil
  show ?case by simp
next
  case (Cons t ts)
  have "fst (issue_checks svc ts (snd (client_check svc t w))) =
        map (check_response svc (fga_store w)) ts"
    using Cons.IH [of "snd (client_check svc t w)"] by simp
  then show ?case
    by (simp add: split_beta)
qed

lemma promise_all_Inr: "promise_all rs = Inr vs \<longleftrightarrow> rs = map Inr vs"
proof (induction rs arbitrary: vs)
  case Nil
  show ?case by auto
next
  case (Cons r rs)
  show ?case
  proof (cases r)
    case (Inl e)
    then show ?thesis by auto
  next
    case (Inr v)
    show ?thesis
    proof (cases "promise_all rs")
      case (Inl e)
      then have "\<And>us. rs \<noteq> map Inr us" using Cons.IH by auto
      with Inl Inr show ?thesis by auto
    next
      case inr: (Inr us)
      then have "rs = map Inr us" using Cons.IH by simp
      with inr Inr show ?thesis by auto
    qed
  qed
qed

lemma dom_fill_false: "dom (fill_false ids m) = dom m \<union> set ids"
  by (induction ids arbitrary: m) auto

lemma fill_false_lookup: "d \<in> set ids \<Longrightarrow> fill_false ids m d = Some False"
proof (induction ids arbitrary: m)
  case Nil
  then show ?case by simp
next
  case (Cons x xs)
  show ?case
  proof (cases "d \<in> set xs")
    case True
    then show ?thesis using Cons.IH by simp
  next
    case False
    have keep: "\<And>m'. d \<notin> set xs \<Longrightarrow> fill_false xs m' d = m' d"
      by (induction xs) (auto)
    from False Cons.prems have "d = x" by simp
    then show ?thesis using keep [OF False] by simp
  qed
qed

lemma dom_fill_results: "dom (fst (fill_results zs (m, w))) = dom m \<union> fst ` set zs"
proof (induction zs arbitrary: m w)
  case Nil
  show ?case by simp
next
  case (Cons z zs)
  obtain d a where z: "z = (d, a)" by (cases z)
  show ?case unfolding z fill_results.simps Cons.IH by auto
qed

lemma fill_results_lookup:
  "fst (fill_results (zip ids (map f ids)) (m, w)) d =
     (if d \<in> set ids then Some (or_false (f d)) else m d)"
proof (induction ids arbitrary: m w)
  case Nil
  show ?case by simp
next
  case (Cons x xs)
  show ?case by (simp add: Cons.IH)
qed

lemma log_add_store [simp]: "fga_store (log_add e w) = fga_store w"
  by (simp add: log_add_def)

lemma batch_fst:
  "\<exists>W. fst (batchCheckDocumentAccess svc userEmail documentIds w) =
     Inr (case promise_all (map (\<lambda>d. check_response svc (fga_store w) (viewer_key userEmail d)) documentIds) of
            Inl e \<Rightarrow> fill_false documentIds Map.empty
          | Inr rs \<Rightarrow> fst (fill_results (zip documentIds rs) (Map.empty, W)))"
  by (simp add: batchCheckDocumentAccess_def Let_def split_beta issue_checks_fst comp_def
      split: sum.splits) blast

lemma grant_fst:
  "fst (grantDocumentAccess svc u d r w) =
     (case write_response svc (fga_store w) (TupleKey (''user:'' @ u) r (''doc:'' @ d)) of
        Some e \<Rightarrow> Inl e | None \<Rightarrow> Inr ())"
  by (simp add: grantDocumentAccess_def client_write_def log_add_def Let_def split: option.splits)

lemma grant_frame:
  "users (snd (grantDocumentAccess svc u d r w)) = users w"
  "uploadedPdfs (snd (grantDocumentAccess svc u d r w)) = uploadedPdfs w"
  "pdfShareRequests (snd (grantDocumentAccess svc u d r w)) = pdfShareRequests w"
  "pdfAccess (snd (grantDocumentAccess svc u d r w)) = pdfAccess w"
  "linkedResearchers (snd (grantDocumentAccess svc u d r w)) = linkedResearchers w"
  "disk (snd (grantDocumentAccess svc u d r w)) = disk w"
  "FGA_STORE_ID (snd (grantDocumentAccess svc u d r w)) = FGA_STORE_ID w"
  by (simp_all add: grantDocumentAccess_def client_write_def log_add_def Let_def split: option.splits)

lemma grant_trace:
  "trace (snd (grantDocumentAccess svc u d r w)) =
     trace w @ [FgaWrite (TupleKey (''user:'' @ u) r (''doc:'' @ d))]"
  by (simp add: grantDocumentAccess_def client_write_def log_add_def Let_def split: option.splits)

lemma grant_store:
  "fga_store (snd (grantDocumentAccess svc u d r w)) =
     (case write_response svc (fga_store w) (TupleKey (''user:'' @ u) r (''doc:'' @ d)) of
        Some e \<Rightarrow> fga_store w
      | None \<Rightarrow> fga_store w @ [TupleKey (''user:'' @ u) r (''doc:'' @ d)])"
  by (simp add: grantDocumentAccess_def client_write_def log_add_def Let_def split: option.splits)

lemma upload_grant_frame:
  "users (upload_grant svc u d w) = users w"
  "uploadedPdfs (upload_grant svc u d w) = uploadedPdfs w"
  "pdfShareRequests (upload_grant svc u d w) = pdfShareRequests w"
  "pdfAccess (upload_grant svc u d w) = pdfAccess w"
  "linkedResearchers (upload_grant svc u d w) = linkedResearchers w"
  "disk (upload_grant svc u d w) = disk w"
  by (simp_all add: upload_grant_def split_beta log_add_def grant_frame split: sum.splits)

lemma accept_grant_frame:
  "users (accept_grant svc u d w) = users w"
  "uploadedPdfs (accept_grant svc u d w) = uploadedPdfs w"
  "pdfShareRequests (accept_grant svc u d w) = pdfShareRequests w"
  "pdfAccess (accept_grant svc u d w) = pdfAccess w"
  "linkedResearchers (accept_grant svc u d w) = linkedResearchers w"
  "disk (accept_grant svc u d w) = disk w"
  by (simp_all add: accept_grant_def split_beta log_add_def grant_frame split: sum.splits)

lemma upload_new:
  assumes "\<not> falsy (up_workId req)" "\<not> falsy (up_userEmail req)"
    "find (\<lambda>u. u_email u = the (up_userEmail req)) (users w) = Some user"
    "up_file req = Some filename" "up_saved req"
    "find (\<lambda>p. p_ownerId p = u_id user \<and> p_workId p = the (up_workId req)) (uploadedPdfs w) = None"
    "\<not> list_ex (\<lambda>p. p_id p = up_newId req) (uploadedPdfs w)"
  shows "upload svc req w =
     (Reply 200 (PdfInfo (up_newId req) (the (up_workId req)) filename (up_now req)),
      upload_grant svc (the (up_userEmail req)) (up_newId req)
        (w\<lparr>disk := disk w @ [up_randomUUID req @ ''.'' @ fileExtension filename],
           uploadedPdfs := uploadedPdfs w @
             [new_pdf req (u_id user) (the (up_workId req))
                (up_randomUUID req @ ''.'' @ fileExtension filename) filename],
           trace := trace w @ [DbInsertPdf (up_newId req)]\<rparr>))"
  using assms by (simp add: upload_def Let_def new_pdf_def)

lemma upload_grant_accepted:
  assumes "fga_configured w"
    "write_response svc (fga_store w) (owner_key u d) = None"
    "write_response svc (fga_store w @ [owner_key u d]) (viewer_key u d) = None"
  shows "fga_store (upload_grant svc u d w) = fga_store w @ [owner_key u d, viewer_key u d]"
    and "trace (upload_grant svc u d w) = trace w @ [FgaWrite (owner_key u d), FgaWrite (viewer_key u d)]"
  using assms
  by (simp_all add: upload_grant_def split_beta log_add_def grant_fst grant_store grant_trace
      owner_key_def viewer_key_def split: sum.splits)

lemma upload_grant_configured [simp]: "fga_configured (w\<lparr>disk := a, uploadedPdfs := b, trace := c\<rparr>) = fga_configured w"
  by (simp add: fga_configured_def)

lemma accept_ok:
  assumes "\<not> falsy (ac_userEmail req)"
    "find (\<lambda>u. u_email u = the (ac_userEmail req)) (users w) = Some user"
    "find (\<lambda>r. sr_id r = ac_id req \<and> sr_toUserId r = u_id user) (pdfShareRequests w) = Some shareRequest"
    "find (\<lambda>p. p_id p = sr_pdfId shareRequest) (uploadedPdfs w) = Some pdf"
  shows "accept svc req w =
     (Reply 200 (Message ''Share request accepted''),
      delete_share_request (ac_id req)
        (accept_grant svc (the (ac_userEmail req)) (sr_pdfId shareRequest)
          (insert_access req (sr_pdfId shareRequest) (u_id user)
            (link_researcher req user pdf w))))"
  using assms by (simp add: accept_def Let_def)

lemma link_researcher_frame:
  "users (link_researcher req user pdf w) = users w"
  "uploadedPdfs (link_researcher req user pdf w) = uploadedPdfs w"
  "pdfShareRequests (link_researcher req user pdf w) = pdfShareRequests w"
  "pdfAccess (link_researcher req user pdf w) = pdfAccess w"
  "fga_store (link_researcher req user pdf w) = fga_store w"
  "fga_configured (link_researcher req user pdf w) = fga_configured w"
  by (simp_all add: link_researcher_def Let_def fga_configured_def split: option.splits)

lemma insert_access_frame:
  "users (insert_access req d u w) = users w"
  "uploadedPdfs (insert_access req d u w) = uploadedPdfs w"
  "pdfShareRequests (insert_access req d u w) = pdfShareRequests w"
  "fga_store (insert_access req d u w) = fga_store w"
  "fga_configured (insert_access req d u w) = fga_configured w"
  "trace (insert_access req d u w) = trace w @ [DbInsertAccess d u]"
  by (simp_all add: insert_access_def Let_def fga_configured_def)

lemma accept_grant_accepted:
  assumes "fga_configured w" "write_response svc (fga_store w) (viewer_key u d) = None"
  shows "fga_store (accept_grant svc u d w) = fga_store w @ [viewer_key u d]"
    and "trace (accept_grant svc u d w) = trace w @ [FgaWrite (viewer_key u d)]"
  using assms
  by (simp_all add: accept_grant_def split_beta log_add_def grant_fst grant_store grant_trace
      viewer_key_def split: sum.splits)

lemma delete_share_request_rows:
  "\<not> list_ex (\<lambda>r. sr_id r = rid) (pdfShareRequests (delete_share_request rid w))"
  "pdfAccess (delete_share_request rid w) = pdfAccess w"
  "fga_store (delete_share_request rid w) = fga_store w"
  "uploadedPdfs (delete_share_request rid w) = uploadedPdfs w"
  "trace (delete_share_request rid w) = trace w @ [DbDeleteShareRequest rid]"
  by (simp_all add: delete_share_request_def list_ex_iff)

lemma update_pdf_keeps:
  "p_id (update_pdf req ufn fname ex row) = p_id row"
  "p_ownerId (update_pdf req ufn fname ex row) = p_ownerId row"
  "p_workId (update_pdf req ufn fname ex row) = p_workId row"
  by (simp_all add: update_pdf_def)

lemma update_pdf_fields:
  "p_id row = p_id ex \<Longrightarrow> p_originalName (update_pdf req ufn fname ex row) = fname"
  "p_id row = p_id ex \<Longrightarrow> p_uploadedAt (update_pdf req ufn fname ex row) = up_now req"
  by (simp_all add: update_pdf_def)

lemma unlink_frame:
  "uploadedPdfs (unlink n w) = uploadedPdfs w"
  "trace (unlink n w) = trace w"
  "fga_store (unlink n w) = fga_store w"
  by (simp_all add: unlink_def log_add_def)

lemma filter_updated:
  "filter (\<lambda>p. p_id p = i) (map (update_pdf req ufn fname ex) rows) =
     map (update_pdf req ufn fname ex) (filter (\<lambda>p. p_id p = i) rows)"
  by (induction rows) (simp_all add: update_pdf_keeps)

lemma filter_Cons_find: "filter P xs = y # ys \<Longrightarrow> find P xs = Some y"
  by (induction xs) (auto split: if_splits)

lemma upload_existing:
  assumes "\<not> falsy (up_workId req)" "\<not> falsy (up_userEmail req)"
    "find (\<lambda>u. u_email u = the (up_userEmail req)) (users w) = Some user"
    "up_file req = Some filename" "up_saved req"
    "find (\<lambda>p. p_ownerId p = u_id user \<and> p_workId p = the (up_workId req)) (uploadedPdfs w) = Some ex"
  shows "\<exists>first. find (\<lambda>p. p_id p = p_id ex) (uploadedPdfs w) = Some first \<and>
     upload svc req w =
     (Reply 200 (PdfInfo (p_id ex) (p_workId first) filename (up_now req)),
      (unlink (p_fileName ex) (w\<lparr>disk := disk w @ [up_randomUUID req @ ''.'' @ fileExtension filename]\<rparr>))
        \<lparr>uploadedPdfs := map (update_pdf req (up_randomUUID req @ ''.'' @ fileExtension filename) filename ex)
                           (uploadedPdfs w),
         trace := trace w @ [DbUpdatePdf (p_id ex)]\<rparr>)"
proof -
  from assms(6) have "ex \<in> set (uploadedPdfs w)"
    by (auto simp: find_Some_iff)
  then have "filter (\<lambda>p. p_id p = p_id ex) (uploadedPdfs w) \<noteq> []"
    by (auto simp: filter_empty_conv)
  then obtain first rest where f: "filter (\<lambda>p. p_id p = p_id ex) (uploadedPdfs w) = first # rest"
    by (cases "filter (\<lambda>p. p_id p = p_id ex) (uploadedPdfs w)") auto
  then have "first \<in> set (filter (\<lambda>p. p_id p = p_id ex) (uploadedPdfs w))"
    by simp
  then have idf: "p_id first = p_id ex"
    by simp
  have ff: "find (\<lambda>p. p_id p = p_id ex) (uploadedPdfs w) = Some first"
    using f by (rule filter_Cons_find)
  show ?thesis
    using assms f idf ff
    by (simp add: upload_def Let_def unlink_frame filter_updated update_pdf_keeps update_pdf_fields)
qed





lemma upload_grant_relational: "relational (upload_grant svc u d w) = relational w"
  by (simp add: relational_def upload_grant_frame)


lemma upload_independent:
  "fst (upload svc req w) = fst (upload svc' req w) \<and>
   relational (snd (upload svc req w)) = relational (snd (upload svc' req w))"
proof (cases "falsy (up_workId req) \<or> falsy (up_userEmail req)")
  case True
  then show ?thesis by (auto simp: upload_def)
next
  case False
  then have valid: "\<not> falsy (up_workId req)" "\<not> falsy (up_userEmail req)" by simp_all
  show ?thesis
  proof (cases "find (\<lambda>u. u_email u = the (up_userEmail req)) (users w)")
    case None
    with valid show ?thesis by (simp add: upload_def)
  next
    case user: (Some user)
    show ?thesis
    proof (cases "up_file req")
      case None
      with valid user show ?thesis by (simp add: upload_def)
    next
      case upfile: (Some filename)
      show ?thesis
      proof (cases "up_saved req")
        case False
        with valid user upfile show ?thesis by (simp add: upload_def Let_def)
      next
        case saved: True
        show ?thesis
        proof (cases "find (\<lambda>p. p_ownerId p = u_id user \<and> p_workId p = the (up_workId req))
                        (uploadedPdfs w)")
          case (Some ex)
          from upload_existing [OF valid user upfile saved Some, of svc]
            upload_existing [OF valid user upfile saved Some, of svc']
          show ?thesis by auto
        next
          case none: None
          show ?thesis
          proof (cases "list_ex (\<lambda>p. p_id p = up_newId req) (uploadedPdfs w)")
            case True
            with valid user upfile saved none show ?thesis by (simp add: upload_def Let_def)
          next
            case False
            from upload_new [OF valid user upfile saved none False, of svc]
              upload_new [OF valid user upfile saved none False, of svc']
            show ?thesis by (simp add: upload_grant_relational)
          qed
        qed
      qed
    qed
  qed
qed

lemma accept_independent:
  "fst (accept svc req w) = fst (accept svc' req w) \<and>
   relational (snd (accept svc req w)) = relational (snd (accept svc' req w))"
proof (cases "falsy (ac_userEmail req)")
  case True
  then show ?thesis by (simp add: accept_def)
next
  case valid: False
  show ?thesis
  proof (cases "find (\<lambda>u. u_email u = the (ac_userEmail req)) (users w)")
    case None
    with valid show ?thesis by (simp add: accept_def)
  next
    case user: (Some user)
    show ?thesis
    proof (cases "find (\<lambda>r. sr_id r = ac_id req \<and> sr_toUserId r = u_id user) (pdfShareRequests w)")
      case None
      with valid user show ?thesis by (simp add: accept_def)
    next
      case request: (Some shareRequest)
      show ?thesis
      proof (cases "find (\<lambda>p. p_id p = sr_pdfId shareRequest) (uploadedPdfs w)")
        case None
        with valid user request show ?thesis by (simp add: accept_def)
      next
        case (Some pdf)
        from accept_ok [OF valid user request Some, of svc]
          accept_ok [OF valid user request Some, of svc']
        show ?thesis by (simp add: relational_def delete_share_request_def accept_grant_frame)
      qed
    qed
  qed
qed

lemma upload_accept_succeed:
  "(\<not> falsy (up_workId ureq) \<and> \<not> falsy (up_userEmail ureq) \<and>
    find (\<lambda>u. u_email u = the (up_userEmail ureq)) (users w) = Some user \<and>
    up_file ureq = Some filename \<and> up_saved ureq \<and>
    find (\<lambda>p. p_ownerId p = u_id user \<and> p_workId p = the (up_workId ureq)) (uploadedPdfs w) = None \<and>
    \<not> list_ex (\<lambda>p. p_id p = up_newId ureq) (uploadedPdfs w)
    \<longrightarrow>
      fst (upload svc ureq w) =
        Reply 200 (PdfInfo (up_newId ureq) (the (up_workId ureq)) filename (up_now ureq)) \<and>
      uploadedPdfs (snd (upload svc ureq w)) =
        uploadedPdfs w @ [new_pdf ureq (u_id user) (the (up_workId ureq))
                            (up_randomUUID ureq @ ''.'' @ fileExtension filename) filename]) \<and>
   (\<not> falsy (ac_userEmail areq) \<and>
    find (\<lambda>u. u_email u = the (ac_userEmail areq)) (users w) = Some grantee \<and>
    find (\<lambda>r. sr_id r = ac_id areq \<and> sr_toUserId r = u_id grantee) (pdfShareRequests w) = Some shareRequest \<and>
    find (\<lambda>p. p_id p = sr_pdfId shareRequest) (uploadedPdfs w) = Some pdf \<and>
    \<not> list_ex (\<lambda>a. a_id a = ac_newAccessId areq) (pdfAccess w)
    \<longrightarrow>
      fst (accept svc areq w) = Reply 200 (Message ''Share request accepted'') \<and>
      list_ex (\<lambda>a. a_pdfId a = sr_pdfId shareRequest \<and> a_userId a = u_id grantee)
        (pdfAccess (snd (accept svc areq w))))"
proof (intro conjI impI)
  assume a: "\<not> falsy (up_workId ureq) \<and> \<not> falsy (up_userEmail ureq) \<and>
    find (\<lambda>u. u_email u = the (up_userEmail ureq)) (users w) = Some user \<and>
    up_file ureq = Some filename \<and> up_saved ureq \<and>
    find (\<lambda>p. p_ownerId p = u_id user \<and> p_workId p = the (up_workId ureq)) (uploadedPdfs w) = None \<and>
    \<not> list_ex (\<lambda>p. p_id p = up_newId ureq) (uploadedPdfs w)"
  then have u: "upload svc ureq w =
     (Reply 200 (PdfInfo (up_newId ureq) (the (up_workId ureq)) filename (up_now ureq)),
      upload_grant svc (the (up_userEmail ureq)) (up_newId ureq)
        (w\<lparr>disk := disk w @ [up_randomUUID ureq @ ''.'' @ fileExtension filename],
           uploadedPdfs := uploadedPdfs w @
             [new_pdf ureq (u_id user) (the (up_workId ureq))
                (up_randomUUID ureq @ ''.'' @ fileExtension filename) filename],
           trace := trace w @ [DbInsertPdf (up_newId ureq)]\<rparr>))"
    using upload_new [of ureq w user filename svc] by blast
  show "fst (upload svc ureq w) =
        Reply 200 (PdfInfo (up_newId ureq) (the (up_workId ureq)) filename (up_now ureq))"
    unfolding u by simp
  show "uploadedPdfs (snd (upload svc ureq w)) =
        uploadedPdfs w @ [new_pdf ureq (u_id user) (the (up_workId ureq))
                            (up_randomUUID ureq @ ''.'' @ fileExtension filename) filename]"
    unfolding u by (simp add: upload_grant_frame)
next
  assume a: "\<not> falsy (ac_userEmail areq) \<and>
    find (\<lambda>u. u_email u = the (ac_userEmail areq)) (users w) = Some grantee \<and>
    find (\<lambda>r. sr_id r = ac_id areq \<and> sr_toUserId r = u_id grantee) (pdfShareRequests w) = Some shareRequest \<and>
    find (\<lambda>p. p_id p = sr_pdfId shareRequest) (uploadedPdfs w) = Some pdf \<and>
    \<not> list_ex (\<lambda>a. a_id a = ac_newAccessId areq) (pdfAccess w)"
  then have acc: "accept svc areq w =
     (Reply 200 (Message ''Share request accepted''),
      delete_share_request (ac_id areq)
        (accept_grant svc (the (ac_userEmail areq)) (sr_pdfId shareRequest)
          (insert_access areq (sr_pdfId shareRequest) (u_id grantee)
            (link_researcher areq grantee pdf w))))"
    using accept_ok [of areq w grantee shareRequest pdf svc] by blast
  show "fst (accept svc areq w) = Reply 200 (Message ''Share request accepted'')"
    unfolding acc by simp
  have "\<not> list_ex (\<lambda>a. a_id a = ac_newAccessId areq) (pdfAccess (link_researcher areq grantee pdf w))"
    using a by (simp add: link_researcher_frame)
  then have "list_ex (\<lambda>a. a_pdfId a = sr_pdfId shareRequest \<and> a_userId a = u_id grantee)
     (pdfAccess (insert_access areq (sr_pdfId shareRequest) (u_id grantee) (link_researcher areq grantee pdf w)))"
    by (auto simp: insert_access_def Let_def list_ex_iff)
  then show "list_ex (\<lambda>a. a_pdfId a = sr_pdfId shareRequest \<and> a_userId a = u_id grantee)
        (pdfAccess (snd (accept svc areq w)))"
    unfolding acc by (simp add: delete_share_request_rows accept_grant_frame)
qed

section \<open>The batch check\<close>

text \<open>
  Claim C9. For every user and every list of document identifiers, \<^verbatim>\<open>batchCheckDocumentAccess\<close>
  returns (it does not throw) a map whose keys are exactly the identifiers of the input list,
  whether the checks succeed or one of them is rejected.
\<close>

theorem batchCheckDocumentAccess_keys: "\<exists>m. fst (batchCheckDocumentAccess svc userEmail documentIds w) = Inr m \<and> dom m = set documentIds"
proof (cases "promise_all (fst (issue_checks svc (map (viewer_key userEmail) documentIds)
          (log_add (ConsoleLog (''[FGA] Batch checking access for user:'' @ userEmail @ '', documents:'')) w)))")
  case (Inl e)
  then show ?thesis
    by (simp add: batchCheckDocumentAccess_def Let_def split_beta dom_fill_false)
next
  case (Inr responses)
  then have "length responses = length documentIds"
    by (simp add: promise_all_Inr issue_checks_fst) (metis length_map)
  then have "fst ` set (zip documentIds responses) = set documentIds"
    by (metis map_fst_zip set_map)
  with Inr show ?thesis
    by (simp add: batchCheckDocumentAccess_def Let_def split_beta dom_fill_results)
qed

theorem batchCheckDocumentAccess_keys_witness:
  "\<exists>m. fst (batchCheckDocumentAccess (flaky_service ''doc:D1'') ''alice@x.org'' [''D1'', ''D2'']
             two_doc_world) = Inr m \<and> dom m = {''D1'', ''D2''}"
  using batchCheckDocumentAccess_keys
    [of "flaky_service ''doc:D1''" "''alice@x.org''" "[''D1'', ''D2'']" two_doc_world]
  by simp

text \<open>
  Claim C1, as stated: a rejected check for one document makes only that document unauthorized
  and leaves the results of the other documents of the batch as they are. This fails: with
  the tuples of both \<open>D1\<close> and \<open>D2\<close> stored, a service that answers all checks reports both as
  authorized; when only the check of \<open>D1\<close> is rejected (the check of \<open>D2\<close> still answers
  \<open>allowed\<close>), \<open>D2\<close> is reported as not authorized too.
\<close>

theorem batchCheck_failure_not_per_document:
  "fst (batchCheckDocumentAccess ideal_service ''alice@x.org'' [''D1'', ''D2''] two_doc_world)
     = Inr [''D1'' \<mapsto> True, ''D2'' \<mapsto> True] \<and>
   check_response (flaky_service ''doc:D1'') (fga_store two_doc_world) (viewer_key ''alice@x.org'' ''D2'') = Inr (Some True) \<and>
   fst (batchCheckDocumentAccess (flaky_service ''doc:D1'') ''alice@x.org'' [''D1'', ''D2''] two_doc_world)
     = Inr [''D1'' \<mapsto> False, ''D2'' \<mapsto> False]"
  by (simp add: batchCheckDocumentAccess_def two_doc_world_def empty_world_def ideal_service_def
      flaky_service_def viewer_key_def client_check_def log_add_def or_false_def)

text \<open>
  Claim C1, amended. A rejected check for any document of the batch makes the whole batch
  fail closed: every document of the list is reported as not authorized (the \<^verbatim>\<open>catch\<close>
  block, "Return all false on error"). When no check is rejected, every document is reported
  with the answer of its own check.
\<close>

theorem batchCheck_failure_denies_whole_batch:
  "\<exists>m. fst (batchCheckDocumentAccess svc userEmail documentIds w) = Inr m \<and>
     ((\<exists>d\<in>set documentIds. \<exists>e. check_response svc (fga_store w) (viewer_key userEmail d) = Inl e)
        \<longrightarrow> (\<forall>d\<in>set documentIds. m d = Some False)) \<and>
     ((\<forall>d\<in>set documentIds. \<exists>a. check_response svc (fga_store w) (viewer_key userEmail d) = Inr a)
        \<longrightarrow> (\<forall>d\<in>set documentIds. \<forall>a. check_response svc (fga_store w) (viewer_key userEmail d) = Inr a
               \<longrightarrow> m d = Some (or_false a)))"
proof -
  let ?chk = "\<lambda>d. check_response svc (fga_store w) (viewer_key userEmail d)"
  show ?thesis
  proof (cases "promise_all (map ?chk documentIds)")
    case (Inl e)
    have "\<not> (\<forall>d\<in>set documentIds. \<exists>a. ?chk d = Inr a)"
    proof
      assume "\<forall>d\<in>set documentIds. \<exists>a. ?chk d = Inr a"
      then have "map ?chk documentIds = map Inr (map (\<lambda>d. projr (?chk d)) documentIds)"
        by auto
      then have "promise_all (map ?chk documentIds) = Inr (map (\<lambda>d. projr (?chk d)) documentIds)"
        unfolding promise_all_Inr .
      with Inl show False by simp
    qed
    moreover obtain W where "fst (batchCheckDocumentAccess svc userEmail documentIds w) =
       Inr (case promise_all (map ?chk documentIds) of
              Inl e \<Rightarrow> fill_false documentIds Map.empty
            | Inr rs \<Rightarrow> fst (fill_results (zip documentIds rs) (Map.empty, W)))"
      using batch_fst by blast
    ultimately show ?thesis using Inl
      by (auto simp: fill_false_lookup)
  next
    case (Inr responses)
    then have all: "map ?chk documentIds = map Inr responses"
      by (simp add: promise_all_Inr)
    have "map (\<lambda>d. projr (?chk d)) documentIds = map projr (map ?chk documentIds)"
      by simp
    also have "\<dots> = responses" unfolding all by (simp add: comp_def)
    finally have resp: "responses = map (\<lambda>d. projr (?chk d)) documentIds" by simp
    have noerr: "\<not> (\<exists>d\<in>set documentIds. \<exists>e. ?chk d = Inl e)"
    proof
      assume "\<exists>d\<in>set documentIds. \<exists>e. ?chk d = Inl e"
      then obtain d e where "d \<in> set documentIds" "?chk d = Inl e" by blast
      then have "Inl e \<in> set (map ?chk documentIds)" by force
      with all show False by auto
    qed
    obtain W where "fst (batchCheckDocumentAccess svc userEmail documentIds w) =
       Inr (case promise_all (map ?chk documentIds) of
              Inl e \<Rightarrow> fill_false documentIds Map.empty
            | Inr rs \<Rightarrow> fst (fill_results (zip documentIds rs) (Map.empty, W)))"
      using batch_fst by blast
    with Inr have "fst (batchCheckDocumentAccess svc userEmail documentIds w) =
            Inr (fst (fill_results (zip documentIds (map (\<lambda>d. projr (?chk d)) documentIds)) (Map.empty, W)))"
      by (simp add: resp)
    with noerr show ?thesis
      by (auto simp: fill_results_lookup)
  qed
qed

theorem batchCheck_failure_denies_whole_batch_witness:
  "(\<exists>d\<in>set [''D1'', ''D2'']. \<exists>e. check_response (flaky_service ''doc:D1'')
        (fga_store two_doc_world) (viewer_key ''alice@x.org'' d) = Inl e) \<and>
   (\<exists>m. fst (batchCheckDocumentAccess (flaky_service ''doc:D1'') ''alice@x.org'' [''D1'', ''D2'']
              two_doc_world) = Inr m \<and>
      m ''D1'' = Some False \<and> m ''D2'' = Some False) \<and>
   check_response ideal_service (fga_store two_doc_world)
     (viewer_key ''alice@x.org'' ''D1'') = Inr (Some True) \<and>
   check_response ideal_service (fga_store two_doc_world)
     (viewer_key ''alice@x.org'' ''D3'') = Inr (Some False) \<and>
   (\<exists>m. fst (batchCheckDocumentAccess ideal_service ''alice@x.org'' [''D1'', ''D3'']
              two_doc_world) = Inr m \<and>
      m ''D1'' = Some True \<and> m ''D3'' = Some False)"
proof -
  have h: "\<exists>d\<in>set [''D1'', ''D2'']. \<exists>e. check_response (flaky_service ''doc:D1'')
             (fga_store two_doc_world) (viewer_key ''alice@x.org'' d) = Inl e"
    by (simp add: flaky_service_def viewer_key_def)
  have g: "\<forall>d\<in>set [''D1'', ''D3'']. \<exists>a. check_response ideal_service
             (fga_store two_doc_world) (viewer_key ''alice@x.org'' d) = Inr a"
    by (simp add: ideal_service_def)
  have a1: "check_response ideal_service (fga_store two_doc_world)
              (viewer_key ''alice@x.org'' ''D1'') = Inr (Some True)"
    by (simp add: ideal_service_def two_doc_world_def empty_world_def)
  have a3: "check_response ideal_service (fga_store two_doc_world)
              (viewer_key ''alice@x.org'' ''D3'') = Inr (Some False)"
    by (simp add: ideal_service_def two_doc_world_def empty_world_def viewer_key_def)
  from h have first: "\<exists>m. fst (batchCheckDocumentAccess (flaky_service ''doc:D1'') ''alice@x.org''
        [''D1'', ''D2''] two_doc_world) = Inr m \<and> m ''D1'' = Some False \<and> m ''D2'' = Some False"
    using batchCheck_failure_denies_whole_batch
      [of "flaky_service ''doc:D1''" "''alice@x.org''" "[''D1'', ''D2'']" two_doc_world]
    by auto
  from g a1 a3 have second: "\<exists>m. fst (batchCheckDocumentAccess ideal_service ''alice@x.org''
        [''D1'', ''D3''] two_doc_world) = Inr m \<and> m ''D1'' = Some True \<and> m ''D3'' = Some False"
    using batchCheck_failure_denies_whole_batch
      [of ideal_service "''alice@x.org''" "[''D1'', ''D3'']" two_doc_world]
    by (auto simp: or_false_def)
  from h a1 a3 first second show ?thesis by blast
qed

section \<open>The single check\<close>




section \<open>Upload\<close>

text \<open>
  Claim C4, as stated: every upload made while the authorization service is configured
  writes the owner and the viewer tuple, so that both checks hold afterwards. This fails in
  two ways. When the service rejects the owner write, the upload still answers 200, the
  viewer write is skipped (both grants share one \<^verbatim>\<open>try\<close>) and no tuple is stored. When the
  upload replaces the file of an existing record (here a record created while the store
  identifier was unset), the handler makes no graph call at all.
\<close>

theorem upload_tuples_not_guaranteed:
  "fga_configured base_world \<and>
   fst (upload failing_service upload_req base_world) =
     Reply 200 (PdfInfo ''D9'' ''W9'' ''trees.pdf'' 5) \<and>
   fga_store (snd (upload failing_service upload_req base_world)) = [] \<and>
   trace (snd (upload failing_service upload_req base_world)) =
     [DbInsertPdf ''D9'', FgaWrite (owner_key ''alice@x.org'' ''D9'')] \<and>
   fga_configured degraded_upgraded_world \<and>
   fst (upload ideal_service reupload_req degraded_upgraded_world) =
     Reply 200 (PdfInfo ''D1'' ''W1'' ''trees.pdf'' 5) \<and>
   fga_store (snd (upload ideal_service reupload_req degraded_upgraded_world)) = [] \<and>
   trace (snd (upload ideal_service reupload_req degraded_upgraded_world)) = [DbUpdatePdf ''D1'']"
  by (simp add: empty_world_def base_world_def alice_def bob_def paper_def
      degraded_upgraded_world_def upload_req_def reupload_req_def ideal_service_def
      failing_service_def upload_def upload_grant_def grantDocumentAccess_def
      client_write_def log_add_def fga_configured_def falsy_def js_or_def new_pdf_def
      update_pdf_def unlink_def owner_key_def viewer_key_def rel_str_def fileExtension_def
      Let_def)

text \<open>
  Claim C4, amended. For every upload that creates a new Document record (no record for the
  uploader and the work exists) while the authorization service is configured and accepts
  both writes: the handler first inserts the Document record and then writes exactly two
  tuples, (U, owner, D) and then (U, viewer, D); afterwards both tuples are stored, so the
  owner check and the viewer check of a service answering from its store succeed.
\<close>

theorem upload_new_document_dual_tuple:
  assumes "\<not> falsy (up_workId req)" and "\<not> falsy (up_userEmail req)"
    and "find (\<lambda>u. u_email u = the (up_userEmail req)) (users w) = Some user"
    and "up_file req = Some filename" and "up_saved req"
    and "find (\<lambda>p. p_ownerId p = u_id user \<and> p_workId p = the (up_workId req))
           (uploadedPdfs w) = None"
    and "\<not> list_ex (\<lambda>p. p_id p = up_newId req) (uploadedPdfs w)"
    and "fga_configured w"
    and "write_response svc (fga_store w)
           (owner_key (the (up_userEmail req)) (up_newId req)) = None"
    and "write_response svc (fga_store w @ [owner_key (the (up_userEmail req)) (up_newId req)])
           (viewer_key (the (up_userEmail req)) (up_newId req)) = None"
  shows "fst (upload svc req w) =
           Reply 200 (PdfInfo (up_newId req) (the (up_workId req)) filename (up_now req)) \<and>
         list_ex (\<lambda>p. p_id p = up_newId req \<and> p_ownerId p = u_id user)
           (uploadedPdfs (snd (upload svc req w))) \<and>
         trace (snd (upload svc req w)) =
           trace w @ [DbInsertPdf (up_newId req),
                      FgaWrite (owner_key (the (up_userEmail req)) (up_newId req)),
                      FgaWrite (viewer_key (the (up_userEmail req)) (up_newId req))] \<and>
         fga_store (snd (upload svc req w)) =
           fga_store w @ [owner_key (the (up_userEmail req)) (up_newId req),
                          viewer_key (the (up_userEmail req)) (up_newId req)] \<and>
         check_response ideal_service (fga_store (snd (upload svc req w)))
           (owner_key (the (up_userEmail req)) (up_newId req)) = Inr (Some True) \<and>
         fst (canUserViewDocument ideal_service (the (up_userEmail req)) (up_newId req)
                (snd (upload svc req w))) = Inr True"
proof -
  let ?u = "the (up_userEmail req)" and ?d = "up_newId req"
  define w2 where "w2 = w\<lparr>disk := disk w @ [up_randomUUID req @ ''.'' @ fileExtension filename],
           uploadedPdfs := uploadedPdfs w @
             [new_pdf req (u_id user) (the (up_workId req))
                (up_randomUUID req @ ''.'' @ fileExtension filename) filename],
           trace := trace w @ [DbInsertPdf (up_newId req)]\<rparr>"
  have u: "upload svc req w =
     (Reply 200 (PdfInfo ?d (the (up_workId req)) filename (up_now req)),
      upload_grant svc ?u ?d w2)"
    unfolding w2_def using upload_new [OF assms(1-7)] .
  have conf: "fga_configured w2"
    using assms(8) by (simp add: fga_configured_def w2_def)
  have st: "fga_store w2 = fga_store w" and tr: "trace w2 = trace w @ [DbInsertPdf ?d]"
    by (simp_all add: w2_def)
  have store: "fga_store (upload_grant svc ?u ?d w2) = fga_store w @ [owner_key ?u ?d, viewer_key ?u ?d]"
    using upload_grant_accepted(1) [of w2 svc ?u ?d] conf assms(9,10) st by simp
  have trace: "trace (upload_grant svc ?u ?d w2) =
      trace w @ [DbInsertPdf ?d, FgaWrite (owner_key ?u ?d), FgaWrite (viewer_key ?u ?d)]"
    using upload_grant_accepted(2) [of w2 svc ?u ?d] conf assms(9,10) st tr by simp
  have rows: "uploadedPdfs (upload_grant svc ?u ?d w2) = uploadedPdfs w @
             [new_pdf req (u_id user) (the (up_workId req))
                (up_randomUUID req @ ''.'' @ fileExtension filename) filename]"
    by (simp add: upload_grant_frame w2_def)
  have row: "list_ex (\<lambda>p. p_id p = ?d \<and> p_ownerId p = u_id user) (uploadedPdfs (upload_grant svc ?u ?d w2))"
    unfolding rows by (simp add: new_pdf_def)
  have chk: "fst (canUserViewDocument ideal_service ?u ?d (upload_grant svc ?u ?d w2)) = Inr True"
    by (simp add: canUserViewDocument_def client_check_def store ideal_service_def or_false_def)
  have own: "check_response ideal_service (fga_store (upload_grant svc ?u ?d w2))
               (owner_key ?u ?d) = Inr (Some True)"
    by (simp add: store ideal_service_def)
  have fstu: "fst (upload svc req w) =
     Reply 200 (PdfInfo ?d (the (up_workId req)) filename (up_now req))"
    unfolding u by simp
  have sndu: "snd (upload svc req w) = upload_grant svc ?u ?d w2"
    unfolding u by simp
  show ?thesis
    unfolding sndu using fstu row trace store own chk by blast
qed

theorem upload_new_document_dual_tuple_witness:
  "fga_configured base_world \<and>
   write_response ideal_service (fga_store base_world) (owner_key ''alice@x.org'' ''D9'') = None \<and>
   fst (upload ideal_service upload_req base_world) =
     Reply 200 (PdfInfo ''D9'' ''W9'' ''trees.pdf'' 5) \<and>
   trace (snd (upload ideal_service upload_req base_world)) =
     [DbInsertPdf ''D9'', FgaWrite (owner_key ''alice@x.org'' ''D9''),
      FgaWrite (viewer_key ''alice@x.org'' ''D9'')] \<and>
   fga_store (snd (upload ideal_service upload_req base_world)) =
     [owner_key ''alice@x.org'' ''D9'', viewer_key ''alice@x.org'' ''D9''] \<and>
   fst (canUserViewDocument ideal_service ''alice@x.org'' ''D9''
          (snd (upload ideal_service upload_req base_world))) = Inr True"
proof -
  have h: "\<not> falsy (up_workId upload_req)" "\<not> falsy (up_userEmail upload_req)"
    "find (\<lambda>u. u_email u = the (up_userEmail upload_req)) (users base_world) = Some alice"
    "up_file upload_req = Some ''trees.pdf''" "up_saved upload_req"
    "find (\<lambda>p. p_ownerId p = u_id alice \<and> p_workId p = the (up_workId upload_req))
       (uploadedPdfs base_world) = None"
    "\<not> list_ex (\<lambda>p. p_id p = up_newId upload_req) (uploadedPdfs base_world)"
    "fga_configured base_world"
    "write_response ideal_service (fga_store base_world)
       (owner_key (the (up_userEmail upload_req)) (up_newId upload_req)) = None"
    "write_response ideal_service
       (fga_store base_world @ [owner_key (the (up_userEmail upload_req)) (up_newId upload_req)])
       (viewer_key (the (up_userEmail upload_req)) (up_newId upload_req)) = None"
    by (simp_all add: empty_world_def base_world_def alice_def bob_def upload_req_def ideal_service_def
      falsy_def fga_configured_def)
  have vals: "up_newId upload_req = ''D9''" "the (up_workId upload_req) = ''W9''"
    "up_now upload_req = 5" "the (up_userEmail upload_req) = ''alice@x.org''"
    "trace base_world = []" "fga_store base_world = []"
    by (simp_all add: empty_world_def base_world_def alice_def bob_def upload_req_def)
  show ?thesis
    using h(8,9) upload_new_document_dual_tuple [OF h, unfolded vals] by (simp add: vals)
qed

text \<open>
  Claim C5. A graph write that fails does not fail the business operation. For every upload
  and every accept, the reply and the relational tables afterwards are the same whatever the
  service answers (so the same with a service that rejects every write as with one that
  accepts them: nothing is rolled back). In particular, whatever the service answers, an
  upload of a new document by a known user answers 200 with the new record's data and the
  Document row is in the table afterwards; accepting a pending share request answers 200 and
  the Access Grant row for the document and the accepting user is in the table afterwards.
\<close>

theorem write_failure_does_not_block:
  "fst (upload svc ureq w) = fst (upload svc' ureq w) \<and>
   relational (snd (upload svc ureq w)) = relational (snd (upload svc' ureq w)) \<and>
   fst (accept svc areq w) = fst (accept svc' areq w) \<and>
   relational (snd (accept svc areq w)) = relational (snd (accept svc' areq w)) \<and>
   (\<not> falsy (up_workId ureq) \<and> \<not> falsy (up_userEmail ureq) \<and>
    find (\<lambda>u. u_email u = the (up_userEmail ureq)) (users w) = Some user \<and>
    up_file ureq = Some filename \<and> up_saved ureq \<and>
    find (\<lambda>p. p_ownerId p = u_id user \<and> p_workId p = the (up_workId ureq)) (uploadedPdfs w) = None \<and>
    \<not> list_ex (\<lambda>p. p_id p = up_newId ureq) (uploadedPdfs w)
    \<longrightarrow>
      fst (upload svc ureq w) =
        Reply 200 (PdfInfo (up_newId ureq) (the (up_workId ureq)) filename (up_now ureq)) \<and>
      uploadedPdfs (snd (upload svc ureq w)) =
        uploadedPdfs w @ [new_pdf ureq (u_id user) (the (up_workId ureq))
                            (up_randomUUID ureq @ ''.'' @ fileExtension filename) filename]) \<and>
   (\<not> falsy (ac_userEmail areq) \<and>
    find (\<lambda>u. u_email u = the (ac_userEmail areq)) (users w) = Some grantee \<and>
    find (\<lambda>r. sr_id r = ac_id areq \<and> sr_toUserId r = u_id grantee) (pdfShareRequests w) = Some shareRequest \<and>
    find (\<lambda>p. p_id p = sr_pdfId shareRequest) (uploadedPdfs w) = Some pdf \<and>
    \<not> list_ex (\<lambda>a. a_id a = ac_newAccessId areq) (pdfAccess w)
    \<longrightarrow>
      fst (accept svc areq w) = Reply 200 (Message ''Share request accepted'') \<and>
      list_ex (\<lambda>a. a_pdfId a = sr_pdfId shareRequest \<and> a_userId a = u_id grantee)
        (pdfAccess (snd (accept svc areq w))))"
  using upload_independent [of svc ureq w svc'] accept_independent [of svc areq w svc']
    upload_accept_succeed [of ureq w user filename svc areq grantee shareRequest pdf]
  by blast

theorem write_failure_does_not_block_witness:
  "write_response failing_service (fga_store share_world) (owner_key ''alice@x.org'' ''D9'')
     = Some (Error ''fga unavailable'') \<and>
   fst (upload failing_service upload_req share_world) =
     fst (upload ideal_service upload_req share_world) \<and>
   relational (snd (accept failing_service accept_req share_world)) =
     relational (snd (accept ideal_service accept_req share_world)) \<and>
   fst (upload failing_service upload_req share_world) =
     Reply 200 (PdfInfo ''D9'' ''W9'' ''trees.pdf'' 5) \<and>
   uploadedPdfs (snd (upload failing_service upload_req share_world)) =
     uploadedPdfs share_world @ [new_pdf upload_req ''u1'' ''W9'' ''f9.pdf'' ''trees.pdf''] \<and>
   fst (accept failing_service accept_req share_world) =
     Reply 200 (Message ''Share request accepted'') \<and>
   list_ex (\<lambda>a. a_pdfId a = ''D1'' \<and> a_userId a = ''u2'')
     (pdfAccess (snd (accept failing_service accept_req share_world)))"
proof -
  let ?sr = "\<lparr>sr_id = ''R1'', sr_pdfId = ''D1'', sr_fromUserId = ''u1'', sr_toUserId = ''u2'',
         sr_createdAt = 2\<rparr>"
  have up: "\<not> falsy (up_workId upload_req) \<and> \<not> falsy (up_userEmail upload_req) \<and>
    find (\<lambda>u. u_email u = the (up_userEmail upload_req)) (users share_world) = Some alice \<and>
    up_file upload_req = Some ''trees.pdf'' \<and> up_saved upload_req \<and>
    find (\<lambda>p. p_ownerId p = u_id alice \<and> p_workId p = the (up_workId upload_req))
      (uploadedPdfs share_world) = None \<and>
    \<not> list_ex (\<lambda>p. p_id p = up_newId upload_req) (uploadedPdfs share_world)"
    by (simp add: empty_world_def base_world_def alice_def bob_def library_world_def paper_def
      share_world_def upload_req_def accept_req_def falsy_def)
  have ac: "\<not> falsy (ac_userEmail accept_req) \<and>
    find (\<lambda>u. u_email u = the (ac_userEmail accept_req)) (users share_world) = Some bob \<and>
    find (\<lambda>r. sr_id r = ac_id accept_req \<and> sr_toUserId r = u_id bob) (pdfShareRequests share_world)
      = Some ?sr \<and>
    find (\<lambda>p. p_id p = sr_pdfId ?sr) (uploadedPdfs share_world) = Some (paper ''D1'' ''W1'') \<and>
    \<not> list_ex (\<lambda>a. a_id a = ac_newAccessId accept_req) (pdfAccess share_world)"
    by (simp add: empty_world_def base_world_def alice_def bob_def library_world_def paper_def
      share_world_def upload_req_def accept_req_def falsy_def)
  have wr: "write_response failing_service (fga_store share_world) (owner_key ''alice@x.org'' ''D9'')
     = Some (Error ''fga unavailable'')"
    by (simp add: failing_service_def)
  have vals: "up_newId upload_req = ''D9''" "the (up_workId upload_req) = ''W9''"
    "up_now upload_req = 5" "u_id alice = ''u1''" "u_id bob = ''u2''"
    "up_randomUUID upload_req @ ''.'' @ fileExtension ''trees.pdf'' = ''f9.pdf''"
    "sr_pdfId ?sr = ''D1''"
    by (simp_all add: alice_def bob_def upload_req_def fileExtension_def)
  note inst = write_failure_does_not_block
      [where ureq = upload_req and w = share_world and user = alice and
          filename = "''trees.pdf''" and svc = failing_service and svc' = ideal_service and
          areq = accept_req and grantee = bob and pdf = "paper ''D1'' ''W1''" and
          shareRequest = ?sr]
  from inst have same_reply: "fst (upload failing_service upload_req share_world) =
     fst (upload ideal_service upload_req share_world)"
    by blast
  from inst have same_rows: "relational (snd (accept failing_service accept_req share_world)) =
     relational (snd (accept ideal_service accept_req share_world))"
    by blast
  from inst up have uploaded:
    "fst (upload failing_service upload_req share_world) =
        Reply 200 (PdfInfo (up_newId upload_req) (the (up_workId upload_req)) ''trees.pdf''
          (up_now upload_req)) \<and>
     uploadedPdfs (snd (upload failing_service upload_req share_world)) =
        uploadedPdfs share_world @ [new_pdf upload_req (u_id alice) (the (up_workId upload_req))
          (up_randomUUID upload_req @ ''.'' @ fileExtension ''trees.pdf'') ''trees.pdf'']"
    by blast
  from inst ac have accepted:
    "fst (accept failing_service accept_req share_world) =
        Reply 200 (Message ''Share request accepted'') \<and>
     list_ex (\<lambda>a. a_pdfId a = sr_pdfId ?sr \<and> a_userId a = u_id bob)
        (pdfAccess (snd (accept failing_service accept_req share_world)))"
    by blast
  show ?thesis
    using wr same_reply same_rows uploaded [unfolded vals] accepted [unfolded vals] by blast
qed

text \<open>
  Claim C8. When a Document record of user U for work reference W exists, uploading again
  under (U, W) updates that record in place: the reply carries the identifier of the
  existing record, the table has the same rows in the same order with their identifiers,
  owners and work references unchanged (so no record is added), the existing record now
  carries the new file name and time stamp, and the only store effect is one update.
\<close>

theorem reupload_updates_in_place:
  assumes "\<not> falsy (up_workId req)" and "\<not> falsy (up_userEmail req)"
    and "find (\<lambda>u. u_email u = the (up_userEmail req)) (users w) = Some user"
    and "up_file req = Some filename" and "up_saved req"
    and "find (\<lambda>p. p_ownerId p = u_id user \<and> p_workId p = the (up_workId req))
           (uploadedPdfs w) = Some existing"
  shows "(\<exists>workId. fst (upload svc req w) =
            Reply 200 (PdfInfo (p_id existing) workId filename (up_now req))) \<and>
         map p_id (uploadedPdfs (snd (upload svc req w))) = map p_id (uploadedPdfs w) \<and>
         map p_ownerId (uploadedPdfs (snd (upload svc req w))) = map p_ownerId (uploadedPdfs w) \<and>
         map p_workId (uploadedPdfs (snd (upload svc req w))) = map p_workId (uploadedPdfs w) \<and>
         list_ex (\<lambda>p. p_id p = p_id existing \<and> p_ownerId p = u_id user \<and>
                      p_workId p = the (up_workId req) \<and> p_originalName p = filename \<and>
                      p_uploadedAt p = up_now req)
           (uploadedPdfs (snd (upload svc req w))) \<and>
         trace (snd (upload svc req w)) = trace w @ [DbUpdatePdf (p_id existing)]"
proof -
  let ?ufn = "up_randomUUID req @ ''.'' @ fileExtension filename"
  define w1 where "w1 = unlink (p_fileName existing) (w\<lparr>disk := disk w @ [?ufn]\<rparr>)"
  define rows where "rows = map (update_pdf req ?ufn filename existing) (uploadedPdfs w)"
  have "\<exists>first::pdf_row. upload svc req w =
     (Reply 200 (PdfInfo (p_id existing) (p_workId first) filename (up_now req)),
      w1\<lparr>uploadedPdfs := rows, trace := trace w @ [DbUpdatePdf (p_id existing)]\<rparr>)"
    using upload_existing [OF assms, of svc] unfolding w1_def rows_def by blast
  then obtain first :: pdf_row where up: "upload svc req w =
     (Reply 200 (PdfInfo (p_id existing) (p_workId first) filename (up_now req)),
      w1\<lparr>uploadedPdfs := rows, trace := trace w @ [DbUpdatePdf (p_id existing)]\<rparr>)"
    by (elim exE)
  have fstu: "\<exists>workId. fst (upload svc req w) =
            Reply 200 (PdfInfo (p_id existing) workId filename (up_now req))"
    unfolding up by simp
  have rows': "uploadedPdfs (snd (upload svc req w)) = rows"
    and tr: "trace (snd (upload svc req w)) = trace w @ [DbUpdatePdf (p_id existing)]"
    unfolding up by simp_all
  have ids: "map p_id rows = map p_id (uploadedPdfs w)"
    and owners: "map p_ownerId rows = map p_ownerId (uploadedPdfs w)"
    and works: "map p_workId rows = map p_workId (uploadedPdfs w)"
    by (simp_all add: rows_def update_pdf_keeps comp_def)
  from assms(6) have mem: "existing \<in> set (uploadedPdfs w)"
    and own: "p_ownerId existing = u_id user" and wk: "p_workId existing = the (up_workId req)"
    by (auto simp: find_Some_iff)
  then have "update_pdf req ?ufn filename existing existing \<in> set rows"
    by (simp add: rows_def)
  then have ex: "list_ex (\<lambda>p. p_id p = p_id existing \<and> p_ownerId p = u_id user \<and>
                      p_workId p = the (up_workId req) \<and> p_originalName p = filename \<and>
                      p_uploadedAt p = up_now req) rows"
    unfolding list_ex_iff using own wk
    by (intro bexI [of _ "update_pdf req ?ufn filename existing existing"])
       (simp_all add: update_pdf_keeps update_pdf_fields)
  show ?thesis
    unfolding rows' using fstu tr ids owners works ex by blast
qed

theorem reupload_updates_in_place_witness:
  "find (\<lambda>p. p_ownerId p = ''u1'' \<and> p_workId p = ''W1'') (uploadedPdfs library_world)
     = Some (paper ''D1'' ''W1'') \<and>
   (\<exists>workId. fst (upload ideal_service reupload_req library_world) =
            Reply 200 (PdfInfo ''D1'' workId ''trees.pdf'' 5)) \<and>
   map p_id (uploadedPdfs (snd (upload ideal_service reupload_req library_world))) = [''D1'', ''D2'', ''D3''] \<and>
   map p_ownerId (uploadedPdfs (snd (upload ideal_service reupload_req library_world))) = [''u1'', ''u1'', ''u1''] \<and>
   trace (snd (upload ideal_service reupload_req library_world)) = [DbUpdatePdf ''D1'']"
proof -
  have h: "\<not> falsy (up_workId reupload_req)" "\<not> falsy (up_userEmail reupload_req)"
    "find (\<lambda>u. u_email u = the (up_userEmail reupload_req)) (users library_world) = Some alice"
    "up_file reupload_req = Some ''trees.pdf''" "up_saved reupload_req"
    "find (\<lambda>p. p_ownerId p = u_id alice \<and> p_workId p = the (up_workId reupload_req))
           (uploadedPdfs library_world) = Some (paper ''D1'' ''W1'')"
    by (simp_all add: empty_world_def base_world_def alice_def bob_def library_world_def paper_def
      upload_req_def reupload_req_def falsy_def)
  have vals: "u_id alice = ''u1''" "the (up_workId reupload_req) = ''W1''" "up_now reupload_req = 5"
    "p_id (paper ''D1'' ''W1'') = ''D1''"
    "map p_id (uploadedPdfs library_world) = [''D1'', ''D2'', ''D3'']"
    "map p_ownerId (uploadedPdfs library_world) = [''u1'', ''u1'', ''u1'']"
    "trace library_world = []"
    by (simp_all add: empty_world_def base_world_def alice_def bob_def library_world_def paper_def
      upload_req_def reupload_req_def)
  show ?thesis
    using h(6) reupload_updates_in_place [OF h, of ideal_service] unfolding vals by simp
qed

section \<open>Accepting a share request\<close>

text \<open>
  Claim C6, as stated: after a pending share request to B on document D is accepted (with
  the authorization service configured), the tuple (B, viewer, D) has been written and the
  viewer check is true. This fails when the service rejects the write: the accept still
  answers 200, but the tuple is not stored and the check answers false.
\<close>

theorem accept_tuple_not_guaranteed:
  "fga_configured share_world \<and>
   fst (accept failing_service accept_req share_world) =
     Reply 200 (Message ''Share request accepted'') \<and>
   viewer_key ''bob@x.org'' ''D1'' \<notin> set (fga_store (snd (accept failing_service accept_req share_world))) \<and>
   fst (canUserViewDocument ideal_service ''bob@x.org'' ''D1''
          (snd (accept failing_service accept_req share_world))) = Inr False"
  by (simp add: empty_world_def base_world_def alice_def bob_def library_world_def paper_def
      share_world_def accept_req_def ideal_service_def failing_service_def accept_def
      accept_grant_def grantDocumentAccess_def client_write_def client_check_def
      canUserViewDocument_def log_add_def fga_configured_def falsy_def link_researcher_def
      insert_access_def delete_share_request_def viewer_key_def rel_str_def or_false_def
      Let_def)

text \<open>
  Claim C6, amended. For every pending share request to user B on document D that B accepts:
  the Access Grant row for (D, B) exists and the Share Request row no longer exists; and when
  the authorization service is configured and accepts the write, the tuple (B, viewer, D)
  has been added to the graph so that the viewer check is true, the handler having inserted
  the grant, then written the tuple, then deleted the request.
\<close>

theorem accept_grants_viewer_when_write_accepted:
  assumes "\<not> falsy (ac_userEmail req)"
    and "find (\<lambda>u. u_email u = the (ac_userEmail req)) (users w) = Some user"
    and "find (\<lambda>r. sr_id r = ac_id req \<and> sr_toUserId r = u_id user) (pdfShareRequests w)
           = Some shareRequest"
    and "find (\<lambda>p. p_id p = sr_pdfId shareRequest) (uploadedPdfs w) = Some pdf"
    and "\<not> list_ex (\<lambda>a. a_id a = ac_newAccessId req) (pdfAccess w)"
  shows "fst (accept svc req w) = Reply 200 (Message ''Share request accepted'') \<and>
         list_ex (\<lambda>a. a_pdfId a = sr_pdfId shareRequest \<and> a_userId a = u_id user)
           (pdfAccess (snd (accept svc req w))) \<and>
         \<not> list_ex (\<lambda>r. sr_id r = ac_id req) (pdfShareRequests (snd (accept svc req w))) \<and>
         (fga_configured w \<and>
          write_response svc (fga_store w)
            (viewer_key (the (ac_userEmail req)) (sr_pdfId shareRequest)) = None \<longrightarrow>
            fga_store (snd (accept svc req w)) =
              fga_store w @ [viewer_key (the (ac_userEmail req)) (sr_pdfId shareRequest)] \<and>
            fst (canUserViewDocument ideal_service (the (ac_userEmail req))
                   (sr_pdfId shareRequest) (snd (accept svc req w))) = Inr True \<and>
            (\<exists>before. trace (snd (accept svc req w)) =
               before @ [DbInsertAccess (sr_pdfId shareRequest) (u_id user),
                         FgaWrite (viewer_key (the (ac_userEmail req)) (sr_pdfId shareRequest)),
                         DbDeleteShareRequest (ac_id req)]))"
proof -
  let ?u = "the (ac_userEmail req)" and ?d = "sr_pdfId shareRequest"
  define w1 where "w1 = link_researcher req user pdf w"
  define w2 where "w2 = insert_access req ?d (u_id user) w1"
  define w3 where "w3 = accept_grant svc ?u ?d w2"
  let ?w4 = "delete_share_request (ac_id req) w3"
  have acc: "accept svc req w = (Reply 200 (Message ''Share request accepted''), ?w4)"
    unfolding w3_def w2_def w1_def using accept_ok [OF assms(1-4)] .
  have sndu: "snd (accept svc req w) = ?w4"
    and fstu: "fst (accept svc req w) = Reply 200 (Message ''Share request accepted'')"
    unfolding acc by simp_all
  have fresh: "\<not> list_ex (\<lambda>a. a_id a = ac_newAccessId req) (pdfAccess w1)"
    using assms(5) by (simp add: w1_def link_researcher_frame)
  have row2: "list_ex (\<lambda>a. a_pdfId a = ?d \<and> a_userId a = u_id user) (pdfAccess w2)"
    using fresh by (auto simp: w2_def insert_access_def Let_def list_ex_iff)
  have row4: "list_ex (\<lambda>a. a_pdfId a = ?d \<and> a_userId a = u_id user) (pdfAccess ?w4)"
    using row2 by (simp add: w3_def accept_grant_frame delete_share_request_rows)
  have gone: "\<not> list_ex (\<lambda>r. sr_id r = ac_id req) (pdfShareRequests ?w4)"
    by (rule delete_share_request_rows(1))
  have graph: "fga_store ?w4 = fga_store w @ [viewer_key ?u ?d] \<and>
      fst (canUserViewDocument ideal_service ?u ?d ?w4) = Inr True \<and>
      (\<exists>before. trace ?w4 = before @ [DbInsertAccess ?d (u_id user),
         FgaWrite (viewer_key ?u ?d), DbDeleteShareRequest (ac_id req)])"
    if conf: "fga_configured w" and ok: "write_response svc (fga_store w) (viewer_key ?u ?d) = None"
  proof -
    have conf2: "fga_configured w2" and st2: "fga_store w2 = fga_store w"
      and tr2: "trace w2 = trace w1 @ [DbInsertAccess ?d (u_id user)]"
      using conf by (simp_all add: w2_def w1_def insert_access_frame link_researcher_frame)
    have st3: "fga_store w3 = fga_store w @ [viewer_key ?u ?d]"
      using accept_grant_accepted(1) [of w2 svc ?u ?d] conf2 st2 ok by (simp add: w3_def)
    have tr3: "trace w3 = trace w1 @ [DbInsertAccess ?d (u_id user), FgaWrite (viewer_key ?u ?d)]"
      using accept_grant_accepted(2) [of w2 svc ?u ?d] conf2 st2 tr2 ok by (simp add: w3_def)
    have st4: "fga_store ?w4 = fga_store w @ [viewer_key ?u ?d]"
      using st3 by (simp add: delete_share_request_rows)
    have chk: "fst (canUserViewDocument ideal_service ?u ?d ?w4) = Inr True"
      by (simp add: canUserViewDocument_def client_check_def st4 ideal_service_def or_false_def)
    have "trace ?w4 = trace w1 @ [DbInsertAccess ?d (u_id user), FgaWrite (viewer_key ?u ?d),
        DbDeleteShareRequest (ac_id req)]"
      using tr3 by (simp add: delete_share_request_rows)
    then have tr4: "\<exists>before. trace ?w4 = before @ [DbInsertAccess ?d (u_id user),
        FgaWrite (viewer_key ?u ?d), DbDeleteShareRequest (ac_id req)]"
      by blast
    from st4 chk tr4 show ?thesis by blast
  qed
  show ?thesis
    unfolding sndu using fstu row4 gone graph by blast
qed

theorem accept_grants_viewer_when_write_accepted_witness:
  "fga_configured share_world \<and>
   write_response ideal_service (fga_store share_world) (viewer_key ''bob@x.org'' ''D1'') = None \<and>
   fst (accept ideal_service accept_req share_world) =
     Reply 200 (Message ''Share request accepted'') \<and>
   list_ex (\<lambda>a. a_pdfId a = ''D1'' \<and> a_userId a = ''u2'')
     (pdfAccess (snd (accept ideal_service accept_req share_world))) \<and>
   fga_store (snd (accept ideal_service accept_req share_world)) =
     fga_store share_world @ [viewer_key ''bob@x.org'' ''D1''] \<and>
   fst (canUserViewDocument ideal_service ''bob@x.org'' ''D1''
          (snd (accept ideal_service accept_req share_world))) = Inr True \<and>
   \<not> list_ex (\<lambda>r. sr_id r = ''R1'') (pdfShareRequests (snd (accept ideal_service accept_req share_world)))"
proof -
  let ?sr = "\<lparr>sr_id = ''R1'', sr_pdfId = ''D1'', sr_fromUserId = ''u1'', sr_toUserId = ''u2'',
         sr_createdAt = 2\<rparr>"
  have h: "\<not> falsy (ac_userEmail accept_req)"
    "find (\<lambda>u. u_email u = the (ac_userEmail accept_req)) (users share_world) = Some bob"
    "find (\<lambda>r. sr_id r = ac_id accept_req \<and> sr_toUserId r = u_id bob) (pdfShareRequests share_world)
      = Some ?sr"
    "find (\<lambda>p. p_id p = sr_pdfId ?sr) (uploadedPdfs share_world) = Some (paper ''D1'' ''W1'')"
    "\<not> list_ex (\<lambda>a. a_id a = ac_newAccessId accept_req) (pdfAccess share_world)"
    by (simp_all add: empty_world_def base_world_def alice_def bob_def library_world_def paper_def
      share_world_def accept_req_def ideal_service_def falsy_def fga_configured_def)
  have vals: "the (ac_userEmail accept_req) = ''bob@x.org''" "sr_pdfId ?sr = ''D1''"
    "u_id bob = ''u2''" "ac_id accept_req = ''R1''"
    by (simp_all add: bob_def accept_req_def)
  have conf: "fga_configured share_world"
    by (simp add: empty_world_def base_world_def library_world_def share_world_def
        fga_configured_def)
  have w: "write_response ideal_service (fga_store share_world) (viewer_key ''bob@x.org'' ''D1'') = None"
    by (simp add: ideal_service_def)
  show ?thesis
    using conf w accept_grants_viewer_when_write_accepted [OF h, of ideal_service, unfolded vals]
    by blast
qed

section \<open>The suggestion flow\<close>






section \<open>Degraded mode\<close>


end
